theory Spec2Isabelle
  imports Main "HOL-Library.Multiset"
begin

section \<open>The document-assistant backend: request handlers over two tables\<close>

text \<open>
  The backend (\<^verbatim>\<open>src/backend/data_handler.py\<close>) is a set of request handlers over a
  relational database with two tables, \<^verbatim>\<open>users\<close> and \<^verbatim>\<open>pdfs\<close>, and a scratch
  directory for uploaded files. Each handler is embedded as a function from the state
  before the request to the outcome and the state after it.

  Python strings are modelled as UTF-8 byte sequences (\<^typ>\<open>string\<close>), so that
  \<^verbatim>\<open>encode("utf-8")\<close> is the identity and \<^verbatim>\<open>len\<close> of a \<^verbatim>\<open>str\<close> counts the bytes
  that start a code point.
\<close>

subsection \<open>Exceptions\<close>

text \<open>
  The exceptions the handlers raise or let through. \<open>HTTPException\<close> carries
  \<^verbatim>\<open>status_code\<close> and \<^verbatim>\<open>detail\<close>; \<open>ValueError\<close> and \<open>RuntimeError\<close> carry their
  message, \<open>FileNotFoundError\<close> the path that could not be opened, \<open>UnboundLocalError\<close>
  the name of the local variable read before its assignment, and \<open>LibraryError\<close> the
  class name of any other exception a library raises. All of them are subclasses of
  Python's \<^verbatim>\<open>Exception\<close>, so an \<^verbatim>\<open>except Exception\<close> clause catches each of them.
\<close>

datatype exn =
    HTTPException nat string
  | RuntimeError string
  | ValueError string
  | FileNotFoundError string
  | UnboundLocalError string
  | UnicodeDecodeError
  | LibraryError string

subsection \<open>Rows, requests and the state\<close>

record user_row =
  user_id :: string
  user_name :: string
  email :: string
  password :: string
  registration_date :: string

record pdf_row =
  pdf_user_id :: string
  file_name :: string
  upload_date :: string
  pdf_text :: "string option"
  last_updated :: string

text \<open>The request bodies \<^verbatim>\<open>UserRegistration\<close> and \<^verbatim>\<open>LoginInput\<close>, and FastAPI's
  \<^verbatim>\<open>UploadFile\<close> with the bytes its \<^verbatim>\<open>file.read()\<close> returns.\<close>

record UserRegistration =
  reg_user_name :: string
  reg_email :: string
  reg_password :: string


record UploadFile =
  filename :: string
  content_type :: string
  contents :: string

text \<open>
  A table is the list of its rows in the order in which an unordered \<^verbatim>\<open>SELECT\<close> returns
  them at that moment; the scratch directory is a map from paths to file contents.
  \<open>extract_log\<close> records the paths handed to \<^verbatim>\<open>extract_text_from_pdf\<close>, so that
  "extraction was not invoked" can be stated.
\<close>

record state =
  users :: "user_row list"
  pdfs :: "pdf_row list"
  files :: "string \<rightharpoonup> string"
  extract_log :: "string list"

text \<open>
  The collaborators whose code is outside the repository are parameters of the model,
  and each of them may raise instead of returning:
  the database server (\<open>connect_ok i\<close>: the \<open>i\<close>-th connection attempt of a request
  succeeds), \<^verbatim>\<open>passlib\<close>'s bcrypt, the PDF extractor (\<open>Inr None\<close> is Python's \<^verbatim>\<open>None\<close>),
  the LLM client, the token signer, the file system (\<open>open_wb p\<close> is the exception that
  \<^verbatim>\<open>open(p, "wb")\<close> raises, if any: a missing directory, a NUL in the path, a name that
  is too long), the clock in the two formats the handlers use, and \<^verbatim>\<open>str(e)\<close> of an
  exception.
\<close>

record env =
  connect_ok :: "nat \<Rightarrow> bool"
  bcrypt_hash :: "string \<Rightarrow> exn + string"
  bcrypt_verify :: "string \<Rightarrow> string \<Rightarrow> exn + bool"
  extract_text_from_pdf :: "string \<Rightarrow> exn + string option"
  get_llm_response :: "string \<Rightarrow> string \<Rightarrow> exn + string"
  sign_jwt :: "string \<Rightarrow> exn + string"
  open_wb :: "string \<Rightarrow> exn option"
  utcnow_dmy :: string
  utcnow_date :: string
  str_exc :: "exn \<Rightarrow> string"

text \<open>A JSON object response: its keys and values in the order the handler writes them.\<close>

type_synonym response = "(string \<times> string) list"

subsection \<open>Library functions\<close>

text \<open>\<^verbatim>\<open>database.get_connection\<close>: up to ten attempts, then \<^verbatim>\<open>RuntimeError\<close>.\<close>

fun connect_attempts :: "(nat \<Rightarrow> bool) \<Rightarrow> nat \<Rightarrow> nat \<Rightarrow> bool" where
  "connect_attempts ok i 0 = False"
| "connect_attempts ok i (Suc n) = (if ok i then True else connect_attempts ok (Suc i) n)"

definition get_connection :: "env \<Rightarrow> exn + unit" where
  "get_connection e =
     (if connect_attempts (connect_ok e) 0 10 then Inr ()
      else Inl (RuntimeError ''Could not connect to the database after several attempts.''))"

text \<open>
  \<^verbatim>\<open>cursor.execute(sql, params)\<close> first adapts its parameters: the driver raises
  \<^verbatim>\<open>ValueError\<close> for a string parameter that holds a NUL character. \<open>adapt_params\<close> is
  given the parameters that are plain Python strings; a UUID, a validated email
  address and a date cannot hold a NUL.
\<close>

definition NUL :: char where
  "NUL = CHR 0x00"

definition adapt_params :: "string list \<Rightarrow> exn option" where
  "adapt_params params =
     (if list_ex (\<lambda>p. NUL \<in> set p) params
        then Some (ValueError ''A string literal cannot contain NUL (0x00) characters.'')
      else None)"

text \<open>\<^verbatim>\<open>cursor.fetchone()\<close> on the rows a \<^verbatim>\<open>SELECT\<close> produced.\<close>

definition fetchone :: "'a list \<Rightarrow> 'a option" where
  "fetchone rows = (case rows of [] \<Rightarrow> None | r # _ \<Rightarrow> Some r)"

text \<open>A \<^verbatim>\<open>SELECT ... WHERE\<close> with string parameters, followed by \<^verbatim>\<open>fetchone()\<close>.\<close>

definition select_one :: "string list \<Rightarrow> ('a \<Rightarrow> bool) \<Rightarrow> 'a list \<Rightarrow> exn + 'a option" where
  "select_one params cond rows =
     (case adapt_params params of
        Some x \<Rightarrow> Inl x
      | None \<Rightarrow> Inr (fetchone (filter cond rows)))"

text \<open>
  An \<^verbatim>\<open>UPDATE ... WHERE\<close>: PostgreSQL writes the new version of an updated row behind
  the rows already stored, so afterwards an unordered \<^verbatim>\<open>SELECT\<close> returns the untouched
  rows first and the updated rows last.
\<close>

definition update_where :: "('a \<Rightarrow> bool) \<Rightarrow> ('a \<Rightarrow> 'a) \<Rightarrow> 'a list \<Rightarrow> 'a list" where
  "update_where cond change rows =
     filter (\<lambda>r. \<not> cond r) rows @ map change (filter cond rows)"

text \<open>A byte that continues a UTF-8 code point (\<^verbatim>\<open>10xxxxxx\<close>); Python's \<^verbatim>\<open>len\<close> of a
  \<^verbatim>\<open>str\<close> counts the other bytes.\<close>

definition continuation :: "char \<Rightarrow> bool" where
  "continuation c = (128 \<le> (of_char c :: nat) \<and> (of_char c :: nat) < 192)"

definition py_len :: "string \<Rightarrow> nat" where
  "py_len t = length (filter (\<lambda>c. \<not> continuation c) t)"

text \<open>\<^verbatim>\<open>password.encode("utf-8")[:72].decode("utf-8")\<close>: the cut raises when it falls
  inside a code point.\<close>

definition truncate72 :: "string \<Rightarrow> exn + string" where
  "truncate72 pw =
     (if 72 < length pw \<and> continuation (pw ! 72) then Inl UnicodeDecodeError
      else Inr (take 72 pw))"

definition UPLOAD_DIR :: string where
  "UPLOAD_DIR = ''/temp/cag_uploads''"

text \<open>\<^verbatim>\<open>os.path.join(UPLOAD_DIR, name)\<close>: an absolute second component replaces the first.\<close>

definition path_join :: "string \<Rightarrow> string \<Rightarrow> string" where
  "path_join dir name =
     (case name of
        [] \<Rightarrow> dir @ ''/''
      | c # _ \<Rightarrow> if c = CHR ''/'' then name else dir @ ''/'' @ name)"

definition max_size :: nat where
  "max_size = 20 * 1024 * 1024"

definition quote :: string where
  "quote = [CHR 0x27]"

definition blank_line :: string where
  "blank_line = [CHR 0x0A, CHR 0x0A]"

text \<open>SQL's \<^verbatim>\<open>COALESCE(pdf_text, '')\<close>.\<close>

definition coalesce :: "string option \<Rightarrow> string" where
  "coalesce t = (case t of None \<Rightarrow> [] | Some v \<Rightarrow> v)"

text \<open>\<^verbatim>\<open>if os.path.exists(file_path): os.remove(file_path)\<close>.\<close>

definition remove_if_exists :: "string \<Rightarrow> state \<Rightarrow> state" where
  "remove_if_exists file_path s =
     (case files s file_path of
        None \<Rightarrow> s
      | Some _ \<Rightarrow> s\<lparr>files := (files s)(file_path := None)\<rparr>)"

text \<open>The clause \<^verbatim>\<open>except Exception as e: raise HTTPException(500, ...)\<close> shared by the
  upload and the update handler.\<close>

definition except_Exception :: "env \<Rightarrow> exn + 'a \<Rightarrow> exn + 'a" where
  "except_Exception e r =
     (case r of
        Inl x \<Rightarrow> Inl (HTTPException 500 (''An error accurred during file processing: '' @ str_exc e x))
      | Inr v \<Rightarrow> Inr v)"

subsection \<open>Registration and login\<close>

text \<open>The \<^verbatim>\<open>if row:\<close> block of \<^verbatim>\<open>register_user\<close>: the exception it raises, if any.\<close>

definition duplicate_error :: "string \<Rightarrow> string \<Rightarrow> user_row \<Rightarrow> exn option" where
  "duplicate_error uuid_str mail row =
     (if user_id row = uuid_str
        then Some (HTTPException 400 (''UUID '' @ quote @ uuid_str @ quote @ '' is already registered!''))
      else if email row = mail
        then Some (HTTPException 400 (''Email '' @ quote @ mail @ quote @ '' is already exist!''))
      else None)"

text \<open>The rest of the \<^verbatim>\<open>try\<close> block: hash the password, insert the row, commit. The
  plain strings among the parameters of the \<^verbatim>\<open>INSERT\<close> are the name and the hash.\<close>

definition insert_user :: "env \<Rightarrow> state \<Rightarrow> string \<Rightarrow> UserRegistration \<Rightarrow> (exn + response) \<times> state" where
  "insert_user e s uuid_str user =
     (case truncate72 (reg_password user) of
        Inl x \<Rightarrow> (Inl x, s)
      | Inr pw \<Rightarrow>
          (case bcrypt_hash e pw of
             Inl x \<Rightarrow> (Inl x, s)
           | Inr hashed_password \<Rightarrow>
               (case adapt_params [reg_user_name user, hashed_password] of
                  Some x \<Rightarrow> (Inl x, s)
                | None \<Rightarrow>
                    (Inr [(''message'', ''User registered successfully!''),
                          (''uuid'', uuid_str),
                          (''user_name'', reg_user_name user),
                          (''email'', reg_email user),
                          (''Registration_date'', utcnow_dmy e)],
                     s\<lparr>users := users s @
                        [\<lparr>user_id = uuid_str, user_name = reg_user_name user,
                          email = reg_email user, password = hashed_password,
                          registration_date = utcnow_dmy e\<rparr>]\<rparr>))))"

text \<open>
  \<^verbatim>\<open>register_user\<close>. The parameters of its \<^verbatim>\<open>SELECT\<close> are the string of a
  \<^verbatim>\<open>uuid.UUID\<close> and an \<^verbatim>\<open>EmailStr\<close>, which the request validation has checked before
  the handler runs, so their adaptation cannot raise.
\<close>

definition register_user :: "env \<Rightarrow> state \<Rightarrow> string \<Rightarrow> UserRegistration \<Rightarrow> (exn + response) \<times> state" where
  "register_user e s uuid_str user =
     (if reg_user_name user = [] then (Inl (HTTPException 400 ''User name cannot be empty!''), s)
      else if 15 < py_len (reg_user_name user) then (Inl (HTTPException 400 ''User name is too long!''), s)
      else
        (case get_connection e of
           Inl x \<Rightarrow> (Inl x, s)
         | Inr _ \<Rightarrow>
             (case fetchone (filter (\<lambda>r. user_id r = uuid_str \<or> email r = reg_email user) (users s)) of
                None \<Rightarrow> insert_user e s uuid_str user
              | Some row \<Rightarrow>
                  (case duplicate_error uuid_str (reg_email user) row of
                     Some x \<Rightarrow> (Inl x, s)
                   | None \<Rightarrow> insert_user e s uuid_str user))))"


subsection \<open>Upload\<close>

text \<open>
  The \<^verbatim>\<open>try\<close> block of \<^verbatim>\<open>upload_pdf\<close>: write the scratch file, extract, look the
  user up, insert the row and commit. The insert and its commit are one step: nothing
  can raise between them. The new row is stored behind the rows already there.
\<close>

definition upload_try :: "env \<Rightarrow> state \<Rightarrow> UploadFile \<Rightarrow> string \<Rightarrow> string \<Rightarrow> (exn + response) \<times> state" where
  "upload_try e s file uid file_path =
     (case open_wb e file_path of
        Some x \<Rightarrow> (Inl x, s)
      | None \<Rightarrow>
          (let s1 = s\<lparr>files := (files s)(file_path \<mapsto> contents file)\<rparr>;
               s2 = s1\<lparr>extract_log := extract_log s1 @ [file_path]\<rparr>
           in case extract_text_from_pdf e (contents file) of
                Inl x \<Rightarrow> (Inl x, s2)
              | Inr None \<Rightarrow> (Inl (HTTPException 500 ''Failed to extract text from PDF''), s2)
              | Inr (Some extracted_text) \<Rightarrow>
                  (case get_connection e of
                     Inl x \<Rightarrow> (Inl x, s2)
                   | Inr _ \<Rightarrow>
                       (case select_one [uid] (\<lambda>r. user_id r = uid) (users s2) of
                          Inl x \<Rightarrow> (Inl x, s2)
                        | Inr None \<Rightarrow> (Inl (HTTPException 404 ''User ID not found''), s2)
                        | Inr (Some _) \<Rightarrow>
                            (case adapt_params [uid, filename file, extracted_text] of
                               Some x \<Rightarrow> (Inl x, s2)
                             | None \<Rightarrow>
                                 (Inr [(''message'', ''File uploaded and text extracted successfully''),
                                       (''uuid'', uid),
                                       (''file_name'', filename file),
                                       (''upload_date'', utcnow_dmy e),
                                       (''last_updated'', utcnow_dmy e)],
                                  s2\<lparr>pdfs := pdfs s2 @
                                     [\<lparr>pdf_user_id = uid, file_name = filename file,
                                       upload_date = utcnow_dmy e,
                                       pdf_text = Some extracted_text,
                                       last_updated = utcnow_dmy e\<rparr>]\<rparr>))))))"

text \<open>The two validations come before the \<^verbatim>\<open>try\<close>; \<^verbatim>\<open>file_path\<close> is assigned before
  it too, so the \<^verbatim>\<open>finally\<close> clause can always read it.\<close>

definition upload_pdf :: "env \<Rightarrow> state \<Rightarrow> UploadFile \<Rightarrow> string \<Rightarrow> (exn + response) \<times> state" where
  "upload_pdf e s file current_user =
     (if content_type file \<noteq> ''application/pdf''
        then (Inl (HTTPException 400 ''Invalid file type. Only PDF files are accepted''), s)
      else if max_size < length (contents file)
        then (Inl (HTTPException 400 ''The file is too large. Max size allowed is 20 MB''), s)
      else
        (let file_path = path_join UPLOAD_DIR (current_user @ ''_'' @ filename file);
             (r, s') = upload_try e s file current_user file_path
         in (except_Exception e r, remove_if_exists file_path s')))"

subsection \<open>Update\<close>

text \<open>The assignment of the SQL \<^verbatim>\<open>UPDATE pdfs SET pdf_text = COALESCE(pdf_text, '') || %s,
  last_updated = %s WHERE user_id = %s AND file_name = %s\<close>.\<close>

definition append_text :: "string \<Rightarrow> string \<Rightarrow> pdf_row \<Rightarrow> pdf_row" where
  "append_text suffix date r =
     r\<lparr>pdf_text := Some (coalesce (pdf_text r) @ suffix), last_updated := date\<rparr>"

text \<open>
  The \<^verbatim>\<open>try\<close> block of \<^verbatim>\<open>update_pdf_data\<close>. Its third result is the local variable
  \<^verbatim>\<open>file_path\<close> at the moment the block is left: \<open>None\<close> while it is unassigned.
\<close>

definition update_try :: "env \<Rightarrow> state \<Rightarrow> UploadFile \<Rightarrow> string \<Rightarrow> (exn + response) \<times> state \<times> string option" where
  "update_try e s file uid =
     (case get_connection e of
        Inl x \<Rightarrow> (Inl x, s, None)
      | Inr _ \<Rightarrow>
          (case select_one [uid] (\<lambda>r. user_id r = uid) (users s) of
             Inl x \<Rightarrow> (Inl x, s, None)
           | Inr None \<Rightarrow> (Inl (HTTPException 404 ''User not found.''), s, None)
           | Inr (Some row) \<Rightarrow>
               if content_type file \<noteq> ''application/pdf''
                 then (Inl (HTTPException 400 ''Invalid file type. Only PDF files are accepted!''), s, None)
               else if max_size < length (contents file)
                 then (Inl (HTTPException 400 ''The file is too large. Max size allowed is 20 MB''), s, None)
               else
                 (let file_path = path_join UPLOAD_DIR (uid @ ''_update_'' @ filename file)
                  in case open_wb e file_path of
                       Some x \<Rightarrow> (Inl x, s, Some file_path)
                     | None \<Rightarrow>
                         (let s1 = s\<lparr>files := (files s)(file_path \<mapsto> contents file)\<rparr>;
                              s2 = s1\<lparr>extract_log := extract_log s1 @ [file_path]\<rparr>
                          in case extract_text_from_pdf e (contents file) of
                               Inl x \<Rightarrow> (Inl x, s2, Some file_path)
                             | Inr None \<Rightarrow>
                                 (Inl (HTTPException 500 ''Failed to extract text from PDF!''), s2,
                                  Some file_path)
                             | Inr (Some new_text) \<Rightarrow>
                                 (case adapt_params [blank_line @ new_text, uid, filename file] of
                                    Some x \<Rightarrow> (Inl x, s2, Some file_path)
                                  | None \<Rightarrow>
                                      (Inr [(''message'', ''Data appended successfully by '' @ user_name row),
                                            (''uuid'', uid),
                                            (''last_updated'', utcnow_date e)],
                                       s2\<lparr>pdfs := update_where
                                              (\<lambda>r. pdf_user_id r = uid \<and> file_name r = filename file)
                                              (append_text (blank_line @ new_text) (utcnow_date e))
                                              (pdfs s2)\<rparr>,
                                       Some file_path))))))"

text \<open>The \<^verbatim>\<open>finally\<close> clause of \<^verbatim>\<open>update_pdf_data\<close>: reading an unassigned
  \<^verbatim>\<open>file_path\<close> raises, and that exception replaces the one in flight.\<close>

definition update_finally :: "string option \<Rightarrow> exn + response \<Rightarrow> state \<Rightarrow> (exn + response) \<times> state" where
  "update_finally file_path r s =
     (case file_path of
        None \<Rightarrow> (Inl (UnboundLocalError ''file_path''), s)
      | Some p \<Rightarrow> (r, remove_if_exists p s))"

definition update_pdf_data :: "env \<Rightarrow> state \<Rightarrow> UploadFile \<Rightarrow> string \<Rightarrow> (exn + response) \<times> state" where
  "update_pdf_data e s file current_user =
     (let (r, s', file_path) = update_try e s file current_user
      in update_finally file_path (except_Exception e r) s')"

subsection \<open>Query, upload history and account deletion\<close>

definition query_data :: "env \<Rightarrow> state \<Rightarrow> string \<Rightarrow> string \<Rightarrow> exn + response" where
  "query_data e s query current_user =
     (case get_connection e of
        Inl x \<Rightarrow> Inl x
      | Inr _ \<Rightarrow>
          (case select_one [current_user] (\<lambda>r. user_id r = current_user) (users s) of
             Inl x \<Rightarrow> Inl x
           | Inr None \<Rightarrow> Inl (HTTPException 404 ''User not found!'')
           | Inr (Some urow) \<Rightarrow>
               (case select_one [current_user] (\<lambda>r. pdf_user_id r = current_user) (pdfs s) of
                  Inl x \<Rightarrow> Inl x
                | Inr None \<Rightarrow> Inl (HTTPException 404 ''No PDF data found for this user'')
                | Inr (Some row) \<Rightarrow>
                    (case pdf_text row of
                       None \<Rightarrow> Inl (HTTPException 404 ''No PDF data found for this user'')
                     | Some stored_text \<Rightarrow>
                         if stored_text = []
                           then Inl (HTTPException 404 ''No PDF data found for this user'')
                         else
                           (case get_llm_response e stored_text query of
                              Inl x \<Rightarrow> Inl x
                            | Inr llm_response \<Rightarrow>
                                Inr [(''uuid'', current_user),
                                     (''user'', user_name urow),
                                     (''query'', query),
                                     (''LLM_response'', llm_response)])))))"


definition delete_account :: "env \<Rightarrow> state \<Rightarrow> string \<Rightarrow> string \<Rightarrow> (exn + response) \<times> state" where
  "delete_account e s pw current_user =
     (case get_connection e of
        Inl x \<Rightarrow> (Inl x, s)
      | Inr _ \<Rightarrow>
          (case select_one [current_user] (\<lambda>r. user_id r = current_user) (users s) of
             Inl x \<Rightarrow> (Inl x, s)
           | Inr None \<Rightarrow> (Inl (HTTPException 404 ''User not found''), s)
           | Inr (Some row) \<Rightarrow>
               (case bcrypt_verify e pw (password row) of
                  Inl x \<Rightarrow> (Inl x, s)
                | Inr matches \<Rightarrow>
                    if \<not> matches then (Inl (HTTPException 401 ''Wrong password.''), s)
                    else (Inr [(''message'', ''Your account has been deleted!''),
                               (''uuid'', current_user)],
                          s\<lparr>users := filter (\<lambda>r. user_id r \<noteq> current_user) (users s)\<rparr>))))"

subsection \<open>A concrete deployment\<close>

text \<open>
  Stand-ins for the external collaborators, on which the handlers can be run. The
  database answers at the first attempt. A hash is the password behind a \<^verbatim>\<open>$\<close>, and
  hashing or verifying a password with a NUL raises, as \<^verbatim>\<open>passlib\<close> does. The extractor
  returns the bytes of a file as its text, \<^verbatim>\<open>None\<close> for an empty file and the empty text
  for a scanned page. The LLM client answers with the context it was given followed by
  the question. Only the directory \<open>UPLOAD_DIR\<close> exists, so a file opens for writing
  when it lies directly in it. \<^verbatim>\<open>str\<close> of an \<^verbatim>\<open>HTTPException\<close> is its status, a colon and
  its detail.
\<close>

fun str_nat :: "nat \<Rightarrow> string" where
  "str_nat n =
     (if n < 10 then [char_of (48 + n)]
      else str_nat (n div 10) @ [char_of (48 + n mod 10)])"

declare str_nat.simps [simp del]

text \<open>\<^verbatim>\<open>os.path.dirname\<close> of a path below the root.\<close>

definition dirname :: "string \<Rightarrow> string" where
  "dirname p = rev (drop 1 (dropWhile (\<lambda>c. c \<noteq> CHR ''/'') (rev p)))"

definition demo_open_wb :: "string \<Rightarrow> exn option" where
  "demo_open_wb p =
     (if NUL \<in> set p then Some (ValueError ''embedded null byte'')
      else if dirname p \<noteq> UPLOAD_DIR then Some (FileNotFoundError p)
      else None)"

definition demo_str_exc :: "exn \<Rightarrow> string" where
  "demo_str_exc x =
     (case x of
        HTTPException c d \<Rightarrow> str_nat c @ '': '' @ d
      | RuntimeError m \<Rightarrow> m
      | ValueError m \<Rightarrow> m
      | FileNotFoundError p \<Rightarrow> ''[Errno 2] No such file or directory: '' @ quote @ p @ quote
      | UnboundLocalError v \<Rightarrow>
          ''cannot access local variable '' @ quote @ v @ quote
            @ '' where it is not associated with a value''
      | UnicodeDecodeError \<Rightarrow> ''utf-8 codec cannot decode bytes: unexpected end of data''
      | LibraryError c \<Rightarrow> c)"

definition demo_env :: env where
  "demo_env =
     \<lparr>connect_ok = (\<lambda>i. True),
      bcrypt_hash = (\<lambda>pw. if NUL \<in> set pw then Inl (LibraryError ''PasswordValueError'')
                           else Inr (''$'' @ pw)),
      bcrypt_verify = (\<lambda>pw h. if NUL \<in> set pw then Inl (LibraryError ''PasswordValueError'')
                               else Inr (h = ''$'' @ pw)),
      extract_text_from_pdf = (\<lambda>c. if c = [] then Inr None
                                     else if c = ''(scanned page)'' then Inr (Some [])
                                     else Inr (Some c)),
      get_llm_response = (\<lambda>ctx q. Inr (ctx @ '' | '' @ q)),
      sign_jwt = (\<lambda>uid. Inr (''token:'' @ uid)),
      open_wb = demo_open_wb,
      utcnow_dmy = ''04-11-26'',
      utcnow_date = ''2026-11-04'',
      str_exc = demo_str_exc\<rparr>"

definition alice :: user_row where
  "alice = \<lparr>user_id = ''U1'', user_name = ''alice'', email = ''a@x.com'',
            password = ''$p'', registration_date = ''01-11-26''\<rparr>"

definition bob :: user_row where
  "bob = \<lparr>user_id = ''U2'', user_name = ''bob'', email = ''b@x.com'',
          password = ''$q'', registration_date = ''02-11-26''\<rparr>"

definition bob_doc :: pdf_row where
  "bob_doc = \<lparr>pdf_user_id = ''U2'', file_name = ''bob.pdf'', upload_date = ''02-11-26'',
              pdf_text = Some ''Secret'', last_updated = ''02-11-26''\<rparr>"

definition alice_doc :: pdf_row where
  "alice_doc = \<lparr>pdf_user_id = ''U1'', file_name = ''doc1.pdf'', upload_date = ''03-11-26'',
                pdf_text = Some ''Hello'', last_updated = ''03-11-26''\<rparr>"

text \<open>Two users without documents, and the same users with one document each, Bob's
  row first.\<close>

definition fresh_state :: state where
  "fresh_state = \<lparr>users = [alice, bob], pdfs = [], files = Map.empty, extract_log = []\<rparr>"

definition demo_state :: state where
  "demo_state = \<lparr>users = [alice, bob], pdfs = [bob_doc, alice_doc], files = Map.empty,
                  extract_log = []\<rparr>"

definition pdf_upload :: "string \<Rightarrow> string \<Rightarrow> UploadFile" where
  "pdf_upload name bytes = \<lparr>filename = name, content_type = ''application/pdf'', contents = bytes\<rparr>"

text \<open>The state after Alice has uploaded a scanned page and then a document with text.\<close>

definition scanned_first :: state where
  "scanned_first =
     snd (upload_pdf demo_env
            (snd (upload_pdf demo_env fresh_state (pdf_upload ''scan.pdf'' ''(scanned page)'') ''U1''))
            (pdf_upload ''doc1.pdf'' ''Hello'') ''U1'')"

section \<open>Properties\<close>

subsection \<open>Lookups and statements\<close>

lemma fetchone_Nil [simp]: "fetchone [] = None"
  by (simp add: fetchone_def)

lemma fetchone_Cons [simp]: "fetchone (r # rows) = Some r"
  by (simp add: fetchone_def)

lemma fetchone_None: "fetchone rows = None \<longleftrightarrow> rows = []"
  by (cases rows) simp_all

lemma fetchone_filter_None: "fetchone (filter P xs) = None \<longleftrightarrow> (\<forall>x\<in>set xs. \<not> P x)"
  by (simp add: fetchone_None filter_empty_conv)


lemma fetchone_filter_Some: "fetchone (filter P xs) = Some r \<Longrightarrow> r \<in> set xs \<and> P r"
proof -
  assume "fetchone (filter P xs) = Some r"
  then obtain rest where "filter P xs = r # rest"
    by (cases "filter P xs") simp_all
  then have "r \<in> set (filter P xs)" by simp
  then show ?thesis by simp
qed

lemma fetchone_filter_member:
  assumes "r \<in> set xs" and "P r"
  obtains r' where "fetchone (filter P xs) = Some r'" and "r' \<in> set xs" and "P r'"
proof -
  from assms have "fetchone (filter P xs) \<noteq> None"
    by (auto simp: fetchone_filter_None)
  then obtain r' where "fetchone (filter P xs) = Some r'" by auto
  with fetchone_filter_Some [of P xs r'] that show ?thesis by blast
qed

lemma get_connection_first: "connect_ok e 0 \<Longrightarrow> get_connection e = Inr ()"
  by (simp add: get_connection_def eval_nat_numeral)

lemma get_connection_demo [simp]: "get_connection demo_env = Inr ()"
  by (simp add: get_connection_first demo_env_def)

lemma adapt_params_None: "adapt_params params = None \<longleftrightarrow> (\<forall>p\<in>set params. NUL \<notin> set p)"
  by (auto simp: adapt_params_def list_ex_iff)

lemma select_one_clean:
  assumes "\<forall>p\<in>set params. NUL \<notin> set p"
  shows "select_one params cond rows = Inr (fetchone (filter cond rows))"
proof -
  from assms have "adapt_params params = None" by (simp add: adapt_params_None)
  then show ?thesis by (simp add: select_one_def)
qed

lemma select_one_InrD:
  "select_one params cond rows = Inr found \<Longrightarrow> found = fetchone (filter cond rows)"
  by (simp add: select_one_def split: option.splits)


lemma update_where_no_match:
  assumes "\<forall>r\<in>set rows. \<not> cond r"
  shows "update_where cond change rows = rows"
proof -
  from assms have "filter cond rows = []" by (simp add: filter_empty_conv)
  moreover from assms have "filter (\<lambda>r. \<not> cond r) rows = rows" by (simp add: filter_id_conv)
  ultimately show ?thesis by (simp add: update_where_def)
qed

lemma pdfs_remove_if_exists [simp]: "pdfs (remove_if_exists p s) = pdfs s"
  by (simp add: remove_if_exists_def split: option.splits)

lemma users_remove_if_exists [simp]: "users (remove_if_exists p s) = users s"
  by (simp add: remove_if_exists_def split: option.splits)

lemma files_remove_if_exists [simp]: "files (remove_if_exists p s) = (files s)(p := None)"
  by (auto simp: remove_if_exists_def split: option.splits)

lemma extract_log_remove_if_exists [simp]: "extract_log (remove_if_exists p s) = extract_log s"
  by (simp add: remove_if_exists_def split: option.splits)

subsection \<open>The update and upload handlers, step by step\<close>

text \<open>What a successful update, and a successful upload, has done.\<close>

lemma update_try_InrD:
  assumes "update_try e s file u = (Inr resp, st, fp)"
  shows "\<exists>new_text.
           extract_text_from_pdf e (contents file) = Inr (Some new_text)
         \<and> pdfs st = update_where (\<lambda>r. pdf_user_id r = u \<and> file_name r = filename file)
                        (append_text (blank_line @ new_text) (utcnow_date e)) (pdfs s)
         \<and> users st = users s
         \<and> fp = Some (path_join UPLOAD_DIR (u @ ''_update_'' @ filename file))"
  using assms
  apply (simp add: update_try_def Let_def split: sum.splits option.splits if_splits)
  apply auto
  done




text \<open>A failed update leaves the document table alone; an update changes it by its
  \<^verbatim>\<open>UPDATE\<close> statement or not at all.\<close>

lemma update_try_InlD:
  assumes "update_try e s file u = (Inl x, st, fp)"
  shows "pdfs st = pdfs s"
  using assms
  apply (simp add: update_try_def Let_def split: sum.splits option.splits if_splits)
  apply auto
  done

lemma update_pdf_data_pdfs:
  "pdfs (snd (update_pdf_data e s file u)) = pdfs (fst (snd (update_try e s file u)))"
proof -
  obtain r st fp where t: "update_try e s file u = (r, st, fp)"
    by (cases "update_try e s file u") auto
  then show ?thesis
    by (cases fp) (simp_all add: update_pdf_data_def update_finally_def)
qed

lemma update_pdf_data_pdfs_cases:
  "pdfs (snd (update_pdf_data e s file u)) = pdfs s
   \<or> (\<exists>new_text. pdfs (snd (update_pdf_data e s file u))
         = update_where (\<lambda>r. pdf_user_id r = u \<and> file_name r = filename file)
             (append_text (blank_line @ new_text) (utcnow_date e)) (pdfs s))"
proof -
  obtain r st fp where t: "update_try e s file u = (r, st, fp)"
    by (cases "update_try e s file u") auto
  show ?thesis
  proof (cases r)
    case (Inl x)
    with t update_try_InlD [of e s "file" u x st fp] show ?thesis
      by (simp add: update_pdf_data_pdfs)
  next
    case (Inr resp)
    with t update_try_InrD [of e s "file" u resp st fp] show ?thesis
      by (auto simp: update_pdf_data_pdfs)
  qed
qed

text \<open>What an update and an upload answer when every step succeeds.\<close>

lemma update_pdf_data_valid:
  assumes db: "get_connection e = Inr ()"
      and user: "fetchone (filter (\<lambda>r. user_id r = u) (users s)) = Some urow"
      and ctype: "content_type file = ''application/pdf''"
      and small: "length (contents file) \<le> max_size"
      and opened: "open_wb e (path_join UPLOAD_DIR (u @ ''_update_'' @ filename file)) = None"
      and extracted: "extract_text_from_pdf e (contents file) = Inr (Some new_text)"
      and clean: "NUL \<notin> set u" "NUL \<notin> set (filename file)" "NUL \<notin> set new_text"
  shows "fst (update_pdf_data e s file u)
           = Inr [(''message'', ''Data appended successfully by '' @ user_name urow),
                  (''uuid'', u), (''last_updated'', utcnow_date e)]"
proof -
  from clean user have sel: "select_one [u] (\<lambda>r. user_id r = u) (users s) = Inr (Some urow)"
    by (simp add: select_one_clean)
  from clean have params: "adapt_params [blank_line @ new_text, u, filename file] = None"
    by (simp add: adapt_params_None blank_line_def NUL_def)
  from db ctype small opened extracted sel params show ?thesis
    by (simp add: update_pdf_data_def update_try_def update_finally_def except_Exception_def
          Let_def)
qed


text \<open>Two \<^verbatim>\<open>UPDATE\<close> statements in a row, up to the order of the rows.\<close>

lemma append_text_keys [simp]:
  "pdf_user_id (append_text suffix date r) = pdf_user_id r"
  "file_name (append_text suffix date r) = file_name r"
  by (simp_all add: append_text_def)


subsection \<open>The concrete deployment\<close>


lemma demo_open_wb_flat:
  "open_wb demo_env (path_join UPLOAD_DIR ''U1_update_doc1.pdf'') = None"
  "open_wb demo_env (path_join UPLOAD_DIR ''U1_update_other.pdf'') = None"
  "open_wb demo_env (path_join UPLOAD_DIR ''U1_doc1.pdf'') = None"
  "open_wb demo_env (path_join UPLOAD_DIR ''U1_doc2.pdf'') = None"
  "open_wb demo_env (path_join UPLOAD_DIR ''U1_scan.pdf'') = None"
  by (simp_all add: demo_env_def demo_open_wb_def dirname_def path_join_def UPLOAD_DIR_def
        NUL_def)

lemma demo_open_wb_nested:
  "open_wb demo_env (path_join UPLOAD_DIR ''U1_update_a/b.pdf'')
     = Some (FileNotFoundError ''/temp/cag_uploads/U1_update_a/b.pdf'')"
  by (simp add: demo_env_def demo_open_wb_def dirname_def path_join_def UPLOAD_DIR_def NUL_def)

lemma demo_extract:
  "extract_text_from_pdf demo_env ''A'' = Inr (Some ''A'')"
  "extract_text_from_pdf demo_env ''B'' = Inr (Some ''B'')"
  "extract_text_from_pdf demo_env ''More'' = Inr (Some ''More'')"
  "extract_text_from_pdf demo_env ''Hello'' = Inr (Some ''Hello'')"
  "extract_text_from_pdf demo_env ''(scanned page)'' = Inr (Some [])"
  by (simp_all add: demo_env_def)

lemma demo_dates:
  "utcnow_date demo_env = ''2026-11-04''" "utcnow_dmy demo_env = ''04-11-26''"
  by (simp_all add: demo_env_def)


subsection \<open>The lookups, step by step\<close>



lemma scanned_first_tables:
  "users scanned_first = [alice, bob]"
  "pdfs scanned_first
     = [\<lparr>pdf_user_id = ''U1'', file_name = ''scan.pdf'', upload_date = ''04-11-26'',
         pdf_text = Some [], last_updated = ''04-11-26''\<rparr>,
        \<lparr>pdf_user_id = ''U1'', file_name = ''doc1.pdf'', upload_date = ''04-11-26'',
         pdf_text = Some ''Hello'', last_updated = ''04-11-26''\<rparr>]"
  by (simp_all add: scanned_first_def upload_pdf_def upload_try_def except_Exception_def
        select_one_def adapt_params_def NUL_def Let_def fresh_state_def alice_def bob_def
        pdf_upload_def max_size_def demo_env_def get_connection_first demo_open_wb_def
        dirname_def path_join_def UPLOAD_DIR_def)

subsection \<open>Stored text after updates\<close>




subsection \<open>Which document row the lookups read\<close>




subsection \<open>Update validation\<close>

text \<open>
  Claim C3 says that an update with a file that is not a PDF, or that exceeds 20 MB,
  fails with status 400. The handler raises that exception inside its \<^verbatim>\<open>try\<close> block,
  where the \<^verbatim>\<open>except Exception\<close> clause turns it into status 500, and the \<^verbatim>\<open>finally\<close>
  clause then reads the unassigned \<^verbatim>\<open>file_path\<close>: the request ends with
  \<^verbatim>\<open>UnboundLocalError\<close>, not with status 400. The upload handler, given the same file,
  answers with status 400.
\<close>

theorem update_pdf_data_bad_file_server_error:
  "fst (update_pdf_data demo_env demo_state
          \<lparr>filename = ''notes.txt'', content_type = ''text/plain'', contents = ''hi''\<rparr> ''U1'')
     = Inl (UnboundLocalError ''file_path'')
   \<and> fst (update_pdf_data demo_env demo_state
          (pdf_upload ''big.pdf'' (replicate 20971521 (CHR ''a''))) ''U1'')
     = Inl (UnboundLocalError ''file_path'')
   \<and> fst (update_try demo_env demo_state
          \<lparr>filename = ''notes.txt'', content_type = ''text/plain'', contents = ''hi''\<rparr> ''U1'')
     = Inl (HTTPException 400 ''Invalid file type. Only PDF files are accepted!'')
   \<and> fst (upload_pdf demo_env demo_state
          \<lparr>filename = ''notes.txt'', content_type = ''text/plain'', contents = ''hi''\<rparr> ''U1'')
     = Inl (HTTPException 400 ''Invalid file type. Only PDF files are accepted'')"
  by (simp add: update_pdf_data_def update_try_def update_finally_def except_Exception_def
        select_one_def adapt_params_def NUL_def
        upload_pdf_def demo_state_def alice_def bob_def pdf_upload_def max_size_def)

subsection \<open>Login\<close>




subsection \<open>Registration\<close>

text \<open>
  Claim C5. A registration whose identifier is the \<^verbatim>\<open>user_id\<close> of a stored user, or
  whose email is the email of a stored user, fails and leaves the state, hence the user
  table, unchanged. With the database reachable the failure has status 400, and for a
  request that passes the name validation (non-empty, at most 15 characters) it is one
  of the handler's two duplicate errors, \<^verbatim>\<open>UUID '...' is already registered!\<close> or
  \<^verbatim>\<open>Email '...' is already exist!\<close>. The handler reports a duplicate with status 400.
\<close>

theorem register_user_duplicate:
  assumes dup: "row \<in> set (users s)" "user_id row = uuid_str \<or> email row = reg_email user"
  shows "snd (register_user e s uuid_str user) = s
       \<and> (\<exists>x. fst (register_user e s uuid_str user) = Inl x)
       \<and> (get_connection e = Inr () \<longrightarrow>
            (\<exists>d. fst (register_user e s uuid_str user) = Inl (HTTPException 400 d)))
       \<and> (get_connection e = Inr () \<and> reg_user_name user \<noteq> [] \<and> py_len (reg_user_name user) \<le> 15 \<longrightarrow>
            fst (register_user e s uuid_str user)
              = Inl (HTTPException 400 (''UUID '' @ quote @ uuid_str @ quote @ '' is already registered!''))
          \<or> fst (register_user e s uuid_str user)
              = Inl (HTTPException 400 (''Email '' @ quote @ reg_email user @ quote @ '' is already exist!'')))"
proof -
  from dup obtain r' where
    some: "fetchone (filter (\<lambda>r. user_id r = uuid_str \<or> email r = reg_email user) (users s)) = Some r'"
    and r': "user_id r' = uuid_str \<or> email r' = reg_email user"
    by (rule fetchone_filter_member
          [where P = "\<lambda>r. user_id r = uuid_str \<or> email r = reg_email user"])
  from r' have "duplicate_error uuid_str (reg_email user) r' \<noteq> None"
    by (auto simp: duplicate_error_def)
  then obtain x where x: "duplicate_error uuid_str (reg_email user) r' = Some x" by auto
  then have x_cases:
    "x = HTTPException 400 (''UUID '' @ quote @ uuid_str @ quote @ '' is already registered!'')
     \<or> x = HTTPException 400 (''Email '' @ quote @ reg_email user @ quote @ '' is already exist!'')"
    by (auto simp: duplicate_error_def split: if_splits)
  show ?thesis
  proof (cases "get_connection e")
    case (Inl err)
    then show ?thesis by (simp add: register_user_def)
  next
    case (Inr c)
    with some x x_cases show ?thesis
      by (auto simp: register_user_def)
  qed
qed

theorem register_user_duplicate_witness:
  "register_user demo_env demo_state ''U1''
      \<lparr>reg_user_name = ''carol'', reg_email = ''c@x.com'', reg_password = ''pw''\<rparr>
     = (Inl (HTTPException 400 (''UUID '' @ quote @ ''U1'' @ quote @ '' is already registered!'')),
        demo_state)
   \<and> register_user demo_env demo_state ''U3''
      \<lparr>reg_user_name = ''carol'', reg_email = ''b@x.com'', reg_password = ''pw''\<rparr>
     = (Inl (HTTPException 400 (''Email '' @ quote @ ''b@x.com'' @ quote @ '' is already exist!'')),
        demo_state)"
proof -
  let ?same_id = "\<lparr>reg_user_name = ''carol'', reg_email = ''c@x.com'', reg_password = ''pw''\<rparr>"
  let ?same_mail = "\<lparr>reg_user_name = ''carol'', reg_email = ''b@x.com'', reg_password = ''pw''\<rparr>"
  have a: "alice \<in> set (users demo_state)" "user_id alice = ''U1'' \<or> email alice = reg_email ?same_id"
    by (simp_all add: demo_state_def alice_def)
  have b: "bob \<in> set (users demo_state)" "user_id bob = ''U3'' \<or> email bob = reg_email ?same_mail"
    by (simp_all add: demo_state_def bob_def)
  have name: "reg_user_name ?same_id \<noteq> []" "py_len (reg_user_name ?same_id) \<le> 15"
    "reg_user_name ?same_mail \<noteq> []" "py_len (reg_user_name ?same_mail) \<le> 15"
    by (simp_all add: py_len_def)
  have not_mail: "fst (register_user demo_env demo_state ''U1'' ?same_id)
      \<noteq> Inl (HTTPException 400 (''Email '' @ quote @ reg_email ?same_id @ quote @ '' is already exist!''))"
    by (simp add: register_user_def py_len_def continuation_def demo_state_def alice_def bob_def
          duplicate_error_def)
  have not_id: "fst (register_user demo_env demo_state ''U3'' ?same_mail)
      \<noteq> Inl (HTTPException 400 (''UUID '' @ quote @ ''U3'' @ quote @ '' is already registered!''))"
    by (simp add: register_user_def py_len_def continuation_def demo_state_def alice_def bob_def
          duplicate_error_def)
  from register_user_duplicate [OF a, of demo_env] name not_mail
  have 1: "register_user demo_env demo_state ''U1'' ?same_id
     = (Inl (HTTPException 400 (''UUID '' @ quote @ ''U1'' @ quote @ '' is already registered!'')),
        demo_state)"
    by (simp add: prod_eq_iff)
  from register_user_duplicate [OF b, of demo_env] name not_id
  have 2: "register_user demo_env demo_state ''U3'' ?same_mail
     = (Inl (HTTPException 400 (''Email '' @ quote @ ''b@x.com'' @ quote @ '' is already exist!'')),
        demo_state)"
    by (simp add: prod_eq_iff)
  from 1 2 show ?thesis by simp
qed

subsection \<open>Upload validation\<close>

text \<open>
  Claim C6. An upload whose content type is not \<^verbatim>\<open>application/pdf\<close> is rejected with
  status 400 and leaves the whole state as it was: no scratch file is written and the
  extractor is not invoked. An upload of more than 20 MB is rejected with status 400
  and leaves the whole state as it was too, so no document row is written.
\<close>

theorem upload_pdf_rejects_early:
  "(content_type file \<noteq> ''application/pdf'' \<longrightarrow>
      upload_pdf e s file u
        = (Inl (HTTPException 400 ''Invalid file type. Only PDF files are accepted''), s))
   \<and> (max_size < length (contents file) \<longrightarrow>
        (\<exists>d. fst (upload_pdf e s file u) = Inl (HTTPException 400 d))
        \<and> snd (upload_pdf e s file u) = s)"
proof (intro conjI impI)
  assume "content_type file \<noteq> ''application/pdf''"
  then show "upload_pdf e s file u
      = (Inl (HTTPException 400 ''Invalid file type. Only PDF files are accepted''), s)"
    by (simp add: upload_pdf_def)
next
  assume big: "max_size < length (contents file)"
  show "\<exists>d. fst (upload_pdf e s file u) = Inl (HTTPException 400 d)"
  proof (cases "content_type file = ''application/pdf''")
    case True
    with big have "fst (upload_pdf e s file u)
        = Inl (HTTPException 400 ''The file is too large. Max size allowed is 20 MB'')"
      by (simp add: upload_pdf_def)
    then show ?thesis by blast
  next
    case False
    then show ?thesis by (simp add: upload_pdf_def)
  qed
next
  assume big: "max_size < length (contents file)"
  then show "snd (upload_pdf e s file u) = s"
    by (simp add: upload_pdf_def)
qed

theorem upload_pdf_rejects_early_witness:
  "upload_pdf demo_env demo_state
      \<lparr>filename = ''notes.txt'', content_type = ''text/plain'', contents = ''hi''\<rparr> ''U1''
     = (Inl (HTTPException 400 ''Invalid file type. Only PDF files are accepted''), demo_state)
   \<and> max_size < length (contents (pdf_upload ''big.pdf'' (replicate 20971521 (CHR ''a''))))
   \<and> (\<exists>d. fst (upload_pdf demo_env demo_state (pdf_upload ''big.pdf'' (replicate 20971521 (CHR ''a''))) ''U1'')
        = Inl (HTTPException 400 d))
   \<and> snd (upload_pdf demo_env demo_state (pdf_upload ''big.pdf'' (replicate 20971521 (CHR ''a''))) ''U1'')
       = demo_state"
  using upload_pdf_rejects_early
      [of "\<lparr>filename = ''notes.txt'', content_type = ''text/plain'', contents = ''hi''\<rparr>"
          demo_env demo_state "''U1''"]
    upload_pdf_rejects_early
      [of "pdf_upload ''big.pdf'' (replicate 20971521 (CHR ''a''))" demo_env demo_state "''U1''"]
  by (simp add: pdf_upload_def max_size_def)

subsection \<open>Query\<close>

text \<open>
  Claim C7, as the code has it. For a caller that is a stored user, with the database
  reachable and no NUL character in the caller's identifier: when the caller has no
  document row, and when the first document row of the caller holds a null or an empty
  text, \<^verbatim>\<open>query_data\<close> fails with status 404 and detail
  \<^verbatim>\<open>No PDF data found for this user\<close>, whatever the caller's later rows hold; when that
  first row holds a non-empty text and the LLM client returns an answer to that text and
  the query, the response carries the query string as it was given and the answer as it
  was returned.
\<close>

theorem query_data_first_row_decides:
  assumes db: "get_connection e = Inr ()"
      and clean: "NUL \<notin> set u"
      and user: "urow \<in> set (users s)" "user_id urow = u"
  shows "(filter (\<lambda>r. pdf_user_id r = u) (pdfs s) = []
            \<longrightarrow> query_data e s q u = Inl (HTTPException 404 ''No PDF data found for this user''))
       \<and> (filter (\<lambda>r. pdf_user_id r = u) (pdfs s) = row # rest
            \<and> (pdf_text row = None \<or> pdf_text row = Some [])
            \<longrightarrow> query_data e s q u = Inl (HTTPException 404 ''No PDF data found for this user''))
       \<and> (filter (\<lambda>r. pdf_user_id r = u) (pdfs s) = row # rest
            \<and> pdf_text row = Some stored_text \<and> stored_text \<noteq> []
            \<and> get_llm_response e stored_text q = Inr answer
            \<longrightarrow> (\<exists>r\<in>set (users s). user_id r = u
                  \<and> query_data e s q u
                      = Inr [(''uuid'', u), (''user'', user_name r), (''query'', q),
                             (''LLM_response'', answer)]))"
proof -
  from user obtain r' where "fetchone (filter (\<lambda>r. user_id r = u) (users s)) = Some r'"
    and mem: "r' \<in> set (users s)" "user_id r' = u"
    using fetchone_filter_member [where P = "\<lambda>r. user_id r = u" and r = urow and xs = "users s"]
    by blast
  with clean have usel: "select_one [u] (\<lambda>r. user_id r = u) (users s) = Inr (Some r')"
    by (simp add: select_one_clean)
  from clean have psel: "select_one [u] (\<lambda>r. pdf_user_id r = u) (pdfs s)
      = Inr (fetchone (filter (\<lambda>r. pdf_user_id r = u) (pdfs s)))"
    by (simp add: select_one_clean)
  show ?thesis
  proof (intro conjI impI)
    assume "filter (\<lambda>r. pdf_user_id r = u) (pdfs s) = []"
    with db usel psel
    show "query_data e s q u = Inl (HTTPException 404 ''No PDF data found for this user'')"
      by (simp add: query_data_def)
  next
    assume "filter (\<lambda>r. pdf_user_id r = u) (pdfs s) = row # rest
            \<and> (pdf_text row = None \<or> pdf_text row = Some [])"
    with db usel psel
    show "query_data e s q u = Inl (HTTPException 404 ''No PDF data found for this user'')"
      by (auto simp: query_data_def)
  next
    assume "filter (\<lambda>r. pdf_user_id r = u) (pdfs s) = row # rest
            \<and> pdf_text row = Some stored_text \<and> stored_text \<noteq> []
            \<and> get_llm_response e stored_text q = Inr answer"
    with db usel psel have "query_data e s q u
        = Inr [(''uuid'', u), (''user'', user_name r'), (''query'', q), (''LLM_response'', answer)]"
      by (simp add: query_data_def)
    with mem show "\<exists>r\<in>set (users s). user_id r = u
        \<and> query_data e s q u
            = Inr [(''uuid'', u), (''user'', user_name r), (''query'', q),
                   (''LLM_response'', answer)]"
      by blast
  qed
qed

theorem query_data_first_row_decides_witness:
  "query_data demo_env fresh_state ''what does it say'' ''U1''
     = Inl (HTTPException 404 ''No PDF data found for this user'')
   \<and> query_data demo_env scanned_first ''what does it say'' ''U1''
     = Inl (HTTPException 404 ''No PDF data found for this user'')
   \<and> query_data demo_env demo_state ''what does it say'' ''U1''
     = Inr [(''uuid'', ''U1''), (''user'', ''alice''), (''query'', ''what does it say''),
            (''LLM_response'', ''Hello | what does it say'')]"
proof -
  have clean: "NUL \<notin> set ''U1''" by (simp add: NUL_def)
  have user: "alice \<in> set (users fresh_state)" "alice \<in> set (users scanned_first)"
    "alice \<in> set (users demo_state)" "user_id alice = ''U1''"
    by (simp_all add: fresh_state_def demo_state_def scanned_first_tables alice_def)
  have none: "filter (\<lambda>r. pdf_user_id r = ''U1'') (pdfs fresh_state) = []"
    by (simp add: fresh_state_def)
  have empty_first: "filter (\<lambda>r. pdf_user_id r = ''U1'') (pdfs scanned_first)
      = \<lparr>pdf_user_id = ''U1'', file_name = ''scan.pdf'', upload_date = ''04-11-26'',
          pdf_text = Some [], last_updated = ''04-11-26''\<rparr>
        # [\<lparr>pdf_user_id = ''U1'', file_name = ''doc1.pdf'', upload_date = ''04-11-26'',
            pdf_text = Some ''Hello'', last_updated = ''04-11-26''\<rparr>]"
    by (simp add: scanned_first_tables)
  have stored: "filter (\<lambda>r. pdf_user_id r = ''U1'') (pdfs demo_state) = alice_doc # []"
    "pdf_text alice_doc = Some ''Hello''" "''Hello'' \<noteq> []"
    "get_llm_response demo_env ''Hello'' ''what does it say'' = Inr ''Hello | what does it say''"
    by (simp_all add: demo_state_def alice_doc_def bob_doc_def demo_env_def)
  have only: "\<forall>r\<in>set (users demo_state). user_id r = ''U1'' \<longrightarrow> user_name r = ''alice''"
    by (simp add: demo_state_def alice_def bob_def)
  from query_data_first_row_decides
         [OF get_connection_demo clean user(1,4), of "''what does it say''"] none
  have 1: "query_data demo_env fresh_state ''what does it say'' ''U1''
     = Inl (HTTPException 404 ''No PDF data found for this user'')"
    by blast
  from query_data_first_row_decides
         [OF get_connection_demo clean user(2,4), where q = "''what does it say''"
            and row = "\<lparr>pdf_user_id = ''U1'', file_name = ''scan.pdf'', upload_date = ''04-11-26'',
                        pdf_text = Some [], last_updated = ''04-11-26''\<rparr>"
            and rest = "[\<lparr>pdf_user_id = ''U1'', file_name = ''doc1.pdf'',
                          upload_date = ''04-11-26'', pdf_text = Some ''Hello'',
                          last_updated = ''04-11-26''\<rparr>]"]
       empty_first
  have 2: "query_data demo_env scanned_first ''what does it say'' ''U1''
     = Inl (HTTPException 404 ''No PDF data found for this user'')"
    by simp
  from query_data_first_row_decides
         [OF get_connection_demo clean user(3,4), where q = "''what does it say''"
            and row = alice_doc and rest = "[]" and stored_text = "''Hello''"
            and answer = "''Hello | what does it say''"]
       stored only
  have 3: "query_data demo_env demo_state ''what does it say'' ''U1''
     = Inr [(''uuid'', ''U1''), (''user'', ''alice''), (''query'', ''what does it say''),
            (''LLM_response'', ''Hello | what does it say'')]"
    by auto
  from 1 2 3 show ?thesis by simp
qed

text \<open>
  A caller with stored text can get status 404: Alice uploads a scanned page, for which
  the extractor returns the empty text, and then a document with the text \<^verbatim>\<open>Hello\<close>.
  Her first row is empty, so her query fails although her second row holds text.
\<close>

theorem query_data_later_text_counterexample:
  "pdfs scanned_first
     = [\<lparr>pdf_user_id = ''U1'', file_name = ''scan.pdf'', upload_date = ''04-11-26'',
         pdf_text = Some [], last_updated = ''04-11-26''\<rparr>,
        \<lparr>pdf_user_id = ''U1'', file_name = ''doc1.pdf'', upload_date = ''04-11-26'',
         pdf_text = Some ''Hello'', last_updated = ''04-11-26''\<rparr>]
   \<and> users scanned_first = [alice, bob]
   \<and> user_id alice = ''U1''
   \<and> query_data demo_env scanned_first ''what does it say'' ''U1''
     = Inl (HTTPException 404 ''No PDF data found for this user'')"
  by (simp add: scanned_first_tables query_data_def select_one_def adapt_params_def NUL_def
        alice_def bob_def)

subsection \<open>Cleanup of the scratch file\<close>

text \<open>
  Claim C8 says that the cleanup step never fails. In \<^verbatim>\<open>update_pdf_data\<close> it does, on
  every exit that precedes the assignment of \<^verbatim>\<open>file_path\<close>: here the caller is not a
  stored user, the \<^verbatim>\<open>try\<close> block raises status 404, and the \<^verbatim>\<open>finally\<close> clause
  raises \<^verbatim>\<open>UnboundLocalError\<close> in its place.
\<close>

theorem update_pdf_data_cleanup_raises:
  "update_pdf_data demo_env demo_state (pdf_upload ''doc1.pdf'' ''More'') ''U9''
     = (Inl (UnboundLocalError ''file_path''), demo_state)
   \<and> update_try demo_env demo_state (pdf_upload ''doc1.pdf'' ''More'') ''U9''
     = (Inl (HTTPException 404 ''User not found.''), demo_state, None)"
  by (simp add: update_pdf_data_def update_try_def update_finally_def except_Exception_def
        select_one_def adapt_params_def NUL_def
        demo_state_def alice_def bob_def)

subsection \<open>Account deletion\<close>

text \<open>
  Claim C9. When \<^verbatim>\<open>delete_account\<close> succeeds, the user table afterwards is the table
  before without the rows of the caller's identifier, and the document table is the
  same list of rows as before, the caller's own documents included.
\<close>

theorem delete_account_keeps_documents:
  assumes "delete_account e s pw u = (Inr resp, s')"
  shows "users s' = filter (\<lambda>r. user_id r \<noteq> u) (users s) \<and> pdfs s' = pdfs s"
  using assms
  by (auto simp: delete_account_def select_one_def adapt_params_def NUL_def split: sum.splits option.splits if_splits)

theorem delete_account_keeps_documents_witness:
  "delete_account demo_env demo_state ''p'' ''U1''
     = (Inr [(''message'', ''Your account has been deleted!''), (''uuid'', ''U1'')],
        demo_state\<lparr>users := [bob]\<rparr>)
   \<and> users (demo_state\<lparr>users := [bob]\<rparr>) = filter (\<lambda>r. user_id r \<noteq> ''U1'') (users demo_state)
   \<and> pdfs (demo_state\<lparr>users := [bob]\<rparr>) = [bob_doc, alice_doc]"
proof -
  have run: "delete_account demo_env demo_state ''p'' ''U1''
     = (Inr [(''message'', ''Your account has been deleted!''), (''uuid'', ''U1'')],
        demo_state\<lparr>users := [bob]\<rparr>)"
    by (simp add: delete_account_def select_one_def adapt_params_def NUL_def demo_state_def alice_def bob_def demo_env_def get_connection_first)
  from delete_account_keeps_documents [OF run] run show ?thesis
    by (simp add: demo_state_def)
qed

subsection \<open>Update without a matching document row\<close>

text \<open>
  Claim C10, as the code has it. When the document table has no row with the caller's
  identifier and the uploaded file's name, \<^verbatim>\<open>update_pdf_data\<close> leaves the document table
  unchanged, whatever the request. It answers with the success response
  \<^verbatim>\<open>Data appended successfully by <name>\<close> when every step before the \<^verbatim>\<open>UPDATE\<close>
  succeeds: the database is reachable, the caller is a stored user, the file is a PDF of
  at most 20 MB, the scratch file can be opened for writing, the extractor returns a
  text, and neither the caller's identifier, the file name nor the text holds a NUL
  character.
\<close>

theorem update_pdf_data_no_matching_row:
  assumes no_row: "\<forall>r\<in>set (pdfs s). \<not> (pdf_user_id r = u \<and> file_name r = filename file)"
  shows "pdfs (snd (update_pdf_data e s file u)) = pdfs s
       \<and> (get_connection e = Inr () \<and> NUL \<notin> set u \<and> urow \<in> set (users s) \<and> user_id urow = u
            \<and> content_type file = ''application/pdf'' \<and> length (contents file) \<le> max_size
            \<and> NUL \<notin> set (filename file)
            \<and> open_wb e (path_join UPLOAD_DIR (u @ ''_update_'' @ filename file)) = None
            \<and> extract_text_from_pdf e (contents file) = Inr (Some new_text)
            \<and> NUL \<notin> set new_text \<longrightarrow>
          (\<exists>r\<in>set (users s). user_id r = u
             \<and> fst (update_pdf_data e s file u)
                 = Inr [(''message'', ''Data appended successfully by '' @ user_name r),
                        (''uuid'', u), (''last_updated'', utcnow_date e)]))"
proof (intro conjI impI)
  from update_pdf_data_pdfs_cases [of e s "file" u] no_row
  show "pdfs (snd (update_pdf_data e s file u)) = pdfs s"
    by (auto simp: update_where_no_match)
next
  assume a: "get_connection e = Inr () \<and> NUL \<notin> set u \<and> urow \<in> set (users s) \<and> user_id urow = u
            \<and> content_type file = ''application/pdf'' \<and> length (contents file) \<le> max_size
            \<and> NUL \<notin> set (filename file)
            \<and> open_wb e (path_join UPLOAD_DIR (u @ ''_update_'' @ filename file)) = None
            \<and> extract_text_from_pdf e (contents file) = Inr (Some new_text)
            \<and> NUL \<notin> set new_text"
  then obtain r where r: "fetchone (filter (\<lambda>r. user_id r = u) (users s)) = Some r"
    and mem: "r \<in> set (users s)" "user_id r = u"
    using fetchone_filter_member [where P = "\<lambda>r. user_id r = u" and r = urow and xs = "users s"]
    by blast
  from a r have "fst (update_pdf_data e s file u)
      = Inr [(''message'', ''Data appended successfully by '' @ user_name r),
             (''uuid'', u), (''last_updated'', utcnow_date e)]"
    using update_pdf_data_valid
            [where e = e and s = s and u = u and urow = r and new_text = new_text, of "file"]
    by simp
  with mem show "\<exists>r\<in>set (users s). user_id r = u
      \<and> fst (update_pdf_data e s file u)
          = Inr [(''message'', ''Data appended successfully by '' @ user_name r),
                 (''uuid'', u), (''last_updated'', utcnow_date e)]"
    by blast
qed

theorem update_pdf_data_no_matching_row_witness:
  "fst (update_pdf_data demo_env demo_state (pdf_upload ''other.pdf'' ''More'') ''U1'')
     = Inr [(''message'', ''Data appended successfully by alice''),
            (''uuid'', ''U1''), (''last_updated'', ''2026-11-04'')]
   \<and> pdfs (snd (update_pdf_data demo_env demo_state (pdf_upload ''other.pdf'' ''More'') ''U1''))
     = [bob_doc, alice_doc]"
proof -
  let ?file = "pdf_upload ''other.pdf'' ''More''"
  have no_row: "\<forall>r\<in>set (pdfs demo_state). \<not> (pdf_user_id r = ''U1'' \<and> file_name r = filename ?file)"
    by (simp add: demo_state_def bob_doc_def alice_doc_def pdf_upload_def)
  have pre: "get_connection demo_env = Inr () \<and> NUL \<notin> set ''U1'' \<and> alice \<in> set (users demo_state)
            \<and> user_id alice = ''U1''
            \<and> content_type ?file = ''application/pdf'' \<and> length (contents ?file) \<le> max_size
            \<and> NUL \<notin> set (filename ?file)
            \<and> open_wb demo_env (path_join UPLOAD_DIR (''U1'' @ ''_update_'' @ filename ?file)) = None
            \<and> extract_text_from_pdf demo_env (contents ?file) = Inr (Some ''More'')
            \<and> NUL \<notin> set ''More''"
    by (simp add: demo_state_def alice_def pdf_upload_def max_size_def NUL_def demo_open_wb_flat
          demo_extract)
  have only: "\<forall>r\<in>set (users demo_state). user_id r = ''U1'' \<longrightarrow> user_name r = ''alice''"
    by (simp add: demo_state_def alice_def bob_def)
  from update_pdf_data_no_matching_row [OF no_row, of demo_env alice "''More''"] pre only
  show ?thesis
    by (auto simp: demo_state_def demo_dates)
qed

text \<open>
  Not every update by a stored user without a matching row is answered with success:
  for the file name \<^verbatim>\<open>a/b.pdf\<close> the scratch file cannot be opened, and for an empty file
  the extractor returns \<^verbatim>\<open>None\<close>; both requests end with status 500.
\<close>

theorem update_pdf_data_no_row_failure_counterexample:
  "fst (update_pdf_data demo_env demo_state (pdf_upload ''a/b.pdf'' ''More'') ''U1'')
     = Inl (HTTPException 500
              (''An error accurred during file processing: ''
                 @ str_exc demo_env (FileNotFoundError ''/temp/cag_uploads/U1_update_a/b.pdf'')))
   \<and> fst (update_pdf_data demo_env demo_state (pdf_upload ''other.pdf'' []) ''U1'')
     = Inl (HTTPException 500
              (''An error accurred during file processing: ''
                 @ str_exc demo_env (HTTPException 500 ''Failed to extract text from PDF!'')))
   \<and> users demo_state = [alice, bob]
   \<and> user_id alice = ''U1''
   \<and> pdfs demo_state = [bob_doc, alice_doc]
   \<and> pdf_user_id bob_doc = ''U2''
   \<and> file_name alice_doc = ''doc1.pdf''"
  by (simp add: update_pdf_data_def update_try_def update_finally_def except_Exception_def
        select_one_def adapt_params_def NUL_def Let_def demo_state_def alice_def bob_def
        alice_doc_def bob_doc_def pdf_upload_def max_size_def demo_env_def get_connection_first
        demo_open_wb_def dirname_def path_join_def UPLOAD_DIR_def)

subsection \<open>Further properties of the update and upload handlers\<close>

text \<open>
  Every update request that fails the content-type or the size validation ends in the
  \<^verbatim>\<open>UnboundLocalError\<close> of the \<^verbatim>\<open>finally\<close> clause and leaves the state unchanged.
\<close>

theorem update_pdf_data_early_exit:
  assumes "content_type file \<noteq> ''application/pdf'' \<or> max_size < length (contents file)"
  shows "update_pdf_data e s file u = (Inl (UnboundLocalError ''file_path''), s)"
  using assms
  by (auto simp: update_pdf_data_def update_try_def update_finally_def
        split: sum.splits option.splits)

theorem update_pdf_data_early_exit_witness:
  "update_pdf_data demo_env demo_state
      \<lparr>filename = ''notes.txt'', content_type = ''text/plain'', contents = ''hi''\<rparr> ''U1''
     = (Inl (UnboundLocalError ''file_path''), demo_state)"
  using update_pdf_data_early_exit
    [of "\<lparr>filename = ''notes.txt'', content_type = ''text/plain'', contents = ''hi''\<rparr>"
        demo_env demo_state "''U1''"]
  by simp

text \<open>
  A scratch file never outlives its request: after an upload that passed both
  validations, and after an update whose \<^verbatim>\<open>finally\<close> clause did not raise, the scratch
  directory is the one before the request with the request's path absent.
\<close>

theorem scratch_file_removed:
  "(content_type file = ''application/pdf'' \<and> length (contents file) \<le> max_size \<longrightarrow>
      files (snd (upload_pdf e s file u))
        = (files s)(path_join UPLOAD_DIR (u @ ''_'' @ filename file) := None))
   \<and> (fst (update_pdf_data e s file u) \<noteq> Inl (UnboundLocalError ''file_path'') \<longrightarrow>
      files (snd (update_pdf_data e s file u))
        = (files s)(path_join UPLOAD_DIR (u @ ''_update_'' @ filename file) := None))"
  by (auto simp: upload_pdf_def upload_try_def update_pdf_data_def update_try_def
        update_finally_def Let_def split: sum.splits option.splits)

theorem scratch_file_removed_witness:
  "files (snd (upload_pdf demo_env demo_state (pdf_upload ''doc2.pdf'' ''More'') ''U1''))
       ''/temp/cag_uploads/U1_doc2.pdf'' = None
   \<and> files (snd (update_pdf_data demo_env demo_state (pdf_upload ''doc1.pdf'' ''More'') ''U1''))
       ''/temp/cag_uploads/U1_update_doc1.pdf'' = None"
proof -
  have a: "content_type (pdf_upload ''doc2.pdf'' ''More'') = ''application/pdf''
           \<and> length (contents (pdf_upload ''doc2.pdf'' ''More'')) \<le> max_size"
    by (simp add: pdf_upload_def max_size_def)
  have b: "fst (update_pdf_data demo_env demo_state (pdf_upload ''doc1.pdf'' ''More'') ''U1'')
           \<noteq> Inl (UnboundLocalError ''file_path'')"
    by (simp add: update_pdf_data_def update_try_def update_finally_def except_Exception_def
        select_one_def adapt_params_def NUL_def
          Let_def demo_state_def alice_def bob_def pdf_upload_def max_size_def demo_env_def
          get_connection_first demo_open_wb_def dirname_def path_join_def UPLOAD_DIR_def
          blank_line_def)
  have p: "path_join UPLOAD_DIR (''U1'' @ ''_'' @ filename (pdf_upload ''doc2.pdf'' ''More''))
             = ''/temp/cag_uploads/U1_doc2.pdf''"
    "path_join UPLOAD_DIR (''U1'' @ ''_update_'' @ filename (pdf_upload ''doc1.pdf'' ''More''))
             = ''/temp/cag_uploads/U1_update_doc1.pdf''"
    by (simp_all add: path_join_def UPLOAD_DIR_def pdf_upload_def)
  from scratch_file_removed [of "pdf_upload ''doc2.pdf'' ''More''" demo_env demo_state "''U1''"]
       scratch_file_removed [of "pdf_upload ''doc1.pdf'' ''More''" demo_env demo_state "''U1''"]
       a b p
  show ?thesis by simp
qed

end
